theory Spec2Isabelle
  imports Complex_Main "HOL-Library.Stream"
begin

section \<open>Errors and Python list indexing\<close>

text \<open>
  The exceptions that \<^verbatim>\<open>network.py\<close> can raise: numpy's shape errors and
  \<^verbatim>\<open>argmax\<close> of an empty array (ValueError), a list index out of range (IndexError)
  a float division by the length of an empty training set (ZeroDivisionError), and
  \<^verbatim>\<open>float\<close> of a list (TypeError).
\<close>

datatype error = ValueError | IndexError | ZeroDivisionError | TypeError

definition ebind :: "error + 'a \<Rightarrow> ('a \<Rightarrow> error + 'b) \<Rightarrow> error + 'b" where
  "ebind m f = (case m of Inl e \<Rightarrow> Inl e | Inr v \<Rightarrow> f v)"

text \<open>
  Python's \<^verbatim>\<open>xs[i]\<close> and \<^verbatim>\<open>xs[i] = v\<close> on a list of length \<open>n\<close>: an index
  from \<open>-n\<close> up to \<open>-1\<close> counts from the end, and an index outside \<open>-n .. n - 1\<close>
  raises IndexError.
\<close>

definition py_index :: "nat \<Rightarrow> int \<Rightarrow> error + nat" where
  "py_index n i =
     (if 0 \<le> i \<and> i < int n then Inr (nat i)
      else if i < 0 \<and> - int n \<le> i then Inr (nat (int n + i))
      else Inl IndexError)"

definition py_get :: "'a list \<Rightarrow> int \<Rightarrow> error + 'a" where
  "py_get xs i = ebind (py_index (length xs) i) (\<lambda>j. Inr (xs ! j))"

definition py_set :: "'a list \<Rightarrow> int \<Rightarrow> 'a \<Rightarrow> error + 'a list" where
  "py_set xs i v = ebind (py_index (length xs) i) (\<lambda>j. Inr (xs[j := v]))"

section \<open>Two-dimensional numpy arrays\<close>

text \<open>
  Every array of the program is two-dimensional (\<^verbatim>\<open>randn(y, 1)\<close>, \<^verbatim>\<open>randn(y, x)\<close>,
  column vectors for inputs and targets): a shape and a row-major buffer. The entries are
  real numbers: the model idealises the IEEE doubles of numpy.
\<close>

datatype ndarray = NDArray (nrows: nat) (ncols: nat) (elems: "real list")

definition valid :: "ndarray \<Rightarrow> bool" where
  "valid a = (length (elems a) = nrows a * ncols a)"

definition entry :: "ndarray \<Rightarrow> nat \<Rightarrow> nat \<Rightarrow> real" where
  "entry a i j = elems a ! (i * ncols a + j)"

definition mk_array :: "nat \<Rightarrow> nat \<Rightarrow> (nat \<Rightarrow> nat \<Rightarrow> real) \<Rightarrow> ndarray" where
  "mk_array r c f = NDArray r c (map (\<lambda>k. f (k div c) (k mod c)) [0..<r * c])"

definition np_zeros :: "nat \<Rightarrow> nat \<Rightarrow> ndarray" where
  "np_zeros r c = NDArray r c (replicate (r * c) 0)"

definition transpose_nd :: "ndarray \<Rightarrow> ndarray" where
  "transpose_nd a = mk_array (ncols a) (nrows a) (\<lambda>i j. entry a j i)"

text \<open>\<^verbatim>\<open>np.dot\<close> of two matrices: the inner dimensions must agree.\<close>

definition np_dot :: "ndarray \<Rightarrow> ndarray \<Rightarrow> error + ndarray" where
  "np_dot a b =
     (if ncols a = nrows b
      then Inr (mk_array (nrows a) (ncols b)
                  (\<lambda>i j. sum_list (map (\<lambda>k. entry a i k * entry b k j) [0..<ncols a])))
      else Inl ValueError)"

text \<open>
  The elementwise operators \<^verbatim>\<open>+\<close>, \<^verbatim>\<open>-\<close>, \<^verbatim>\<open>*\<close> of numpy broadcast: two
  extents are compatible when they are equal or one of them is 1, and an extent of 1 is
  stretched to the other one.
\<close>

definition bdim :: "nat \<Rightarrow> nat \<Rightarrow> nat option" where
  "bdim m n = (if m = n then Some m else if m = 1 then Some n
               else if n = 1 then Some m else None)"

definition bidx :: "nat \<Rightarrow> nat \<Rightarrow> nat" where
  "bidx m i = (if m = 1 then 0 else i)"

definition broadcast2 :: "(real \<Rightarrow> real \<Rightarrow> real) \<Rightarrow> ndarray \<Rightarrow> ndarray \<Rightarrow> error + ndarray" where
  "broadcast2 f a b =
     (case bdim (nrows a) (nrows b) of
        None \<Rightarrow> Inl ValueError
      | Some r \<Rightarrow>
          (case bdim (ncols a) (ncols b) of
             None \<Rightarrow> Inl ValueError
           | Some c \<Rightarrow>
               Inr (mk_array r c
                      (\<lambda>i j. f (entry a (bidx (nrows a) i) (bidx (ncols a) j))
                               (entry b (bidx (nrows b) i) (bidx (ncols b) j))))))"

definition np_add :: "ndarray \<Rightarrow> ndarray \<Rightarrow> error + ndarray" where
  "np_add = broadcast2 (\<lambda>u v. u + v)"

definition np_sub :: "ndarray \<Rightarrow> ndarray \<Rightarrow> error + ndarray" where
  "np_sub = broadcast2 (\<lambda>u v. u - v)"

definition np_mul :: "ndarray \<Rightarrow> ndarray \<Rightarrow> error + ndarray" where
  "np_mul = broadcast2 (\<lambda>u v. u * v)"

text \<open>A Python float combined with an array acts on every entry.\<close>

definition map_nd :: "(real \<Rightarrow> real) \<Rightarrow> ndarray \<Rightarrow> ndarray" where
  "map_nd g a = NDArray (nrows a) (ncols a) (map g (elems a))"

definition scalar_mul :: "real \<Rightarrow> ndarray \<Rightarrow> ndarray" where
  "scalar_mul s a = map_nd (\<lambda>v. s * v) a"

definition scalar_rsub :: "real \<Rightarrow> ndarray \<Rightarrow> ndarray" where
  "scalar_rsub s a = map_nd (\<lambda>v. s - v) a"

text \<open>
  \<^verbatim>\<open>np.argmax\<close>: the index, in the flattened array, of the first occurrence of the
  maximum; it raises ValueError on an empty array.
\<close>

fun argmax_from :: "real list \<Rightarrow> nat \<Rightarrow> nat \<Rightarrow> real \<Rightarrow> nat" where
  "argmax_from [] i best bv = best"
| "argmax_from (v # vs) i best bv =
     (if bv < v then argmax_from vs (Suc i) i v else argmax_from vs (Suc i) best bv)"

definition np_argmax :: "ndarray \<Rightarrow> error + nat" where
  "np_argmax a = (case elems a of [] \<Rightarrow> Inl ValueError | v # vs \<Rightarrow> Inr (argmax_from vs 1 0 v))"

section \<open>The helper functions of the module\<close>

definition sigmoid_scalar :: "real \<Rightarrow> real" where
  "sigmoid_scalar z = 1 / (1 + exp (- z))"

definition sigmoid :: "ndarray \<Rightarrow> ndarray" where
  "sigmoid z = map_nd sigmoid_scalar z"

definition sigmoid_prime :: "ndarray \<Rightarrow> error + ndarray" where
  "sigmoid_prime z = np_mul (sigmoid z) (scalar_rsub 1 (sigmoid z))"

section \<open>The class Network\<close>

record network =
  num_layers :: nat
  sizes :: "nat list"
  biases :: "ndarray list"
  weights :: "ndarray list"

text \<open>
  \<^verbatim>\<open>np.random.randn(r, c)\<close> draws \<open>r * c\<close> numbers from the random source, which is
  the stream of its future draws.
\<close>

definition randn :: "nat \<Rightarrow> nat \<Rightarrow> real stream \<Rightarrow> ndarray \<times> real stream" where
  "randn r c s = (NDArray r c (stake (r * c) s), sdrop (r * c) s)"

fun randn_list :: "(nat \<times> nat) list \<Rightarrow> real stream \<Rightarrow> ndarray list \<times> real stream" where
  "randn_list [] s = ([], s)"
| "randn_list ((r, c) # shapes) s =
     (let (a, s1) = randn r c s; (as, s2) = randn_list shapes s1 in (a # as, s2))"

definition Network_init :: "nat list \<Rightarrow> real stream \<Rightarrow> network \<times> real stream" where
  "Network_init szs s =
     (let (bs, s1) = randn_list (map (\<lambda>y. (y, 1)) (drop 1 szs)) s;
          (ws, s2) = randn_list (map (\<lambda>(x, y). (y, x)) (zip (butlast szs) (drop 1 szs))) s1
      in (\<lparr>num_layers = length szs, sizes = szs, biases = bs, weights = ws\<rparr>, s2))"

fun feedforward_loop :: "(ndarray \<times> ndarray) list \<Rightarrow> ndarray \<Rightarrow> error + ndarray" where
  "feedforward_loop [] a = Inr a"
| "feedforward_loop ((bias, wgt) # rest) a =
     ebind (np_dot wgt a) (\<lambda>d.
     ebind (np_add d bias) (\<lambda>z.
     feedforward_loop rest (sigmoid z)))"

definition feedforward :: "network \<Rightarrow> ndarray \<Rightarrow> error + ndarray" where
  "feedforward net a = feedforward_loop (zip (biases net) (weights net)) a"

definition cost_derivative :: "ndarray \<Rightarrow> ndarray \<Rightarrow> error + ndarray" where
  "cost_derivative output_activations y = np_sub output_activations y"

text \<open>
  The forward pass of \<^verbatim>\<open>backprop\<close>: it keeps every activation and every
  pre-activation \<open>z\<close>, layer by layer.
\<close>

fun forward_cached ::
  "(ndarray \<times> ndarray) list \<Rightarrow> ndarray \<Rightarrow> ndarray list \<Rightarrow> ndarray list
     \<Rightarrow> error + (ndarray list \<times> ndarray list)" where
  "forward_cached [] activation activations zs = Inr (activations, zs)"
| "forward_cached ((bias, wgt) # rest) activation activations zs =
     ebind (np_dot wgt activation) (\<lambda>d.
     ebind (np_add d bias) (\<lambda>z.
     forward_cached rest (sigmoid z) (activations @ [sigmoid z]) (zs @ [z])))"

text \<open>
  One turn of the backward loop \<^verbatim>\<open>for l in range(2, self.num_layers)\<close>, on the
  loop's variables \<^verbatim>\<open>delta\<close>, \<^verbatim>\<open>nabla_b\<close> and \<^verbatim>\<open>nabla_w\<close>.
\<close>

definition backward_step ::
  "network \<Rightarrow> ndarray list \<Rightarrow> ndarray list \<Rightarrow> nat
     \<Rightarrow> ndarray \<times> ndarray list \<times> ndarray list
     \<Rightarrow> error + (ndarray \<times> ndarray list \<times> ndarray list)" where
  "backward_step net activations zs l st =
     (case st of (delta, nabla_b, nabla_w) \<Rightarrow>
        ebind (py_get zs (- int l)) (\<lambda>z.
        ebind (sigmoid_prime z) (\<lambda>sp.
        ebind (py_get (weights net) (- int l + 1)) (\<lambda>w.
        ebind (np_dot (transpose_nd w) delta) (\<lambda>d.
        ebind (np_mul d sp) (\<lambda>delta'.
        ebind (py_set nabla_b (- int l) delta') (\<lambda>nabla_b'.
        ebind (py_get activations (- int l - 1)) (\<lambda>a.
        ebind (np_dot delta' (transpose_nd a)) (\<lambda>g.
        ebind (py_set nabla_w (- int l) g) (\<lambda>nabla_w'.
        Inr (delta', nabla_b', nabla_w')))))))))))"

fun backward_loop ::
  "network \<Rightarrow> ndarray list \<Rightarrow> ndarray list \<Rightarrow> nat list
     \<Rightarrow> ndarray \<times> ndarray list \<times> ndarray list
     \<Rightarrow> error + (ndarray \<times> ndarray list \<times> ndarray list)" where
  "backward_loop net activations zs [] st = Inr st"
| "backward_loop net activations zs (l # ls) st =
     ebind (backward_step net activations zs l st) (backward_loop net activations zs ls)"

definition zeros_like :: "ndarray \<Rightarrow> ndarray" where
  "zeros_like a = np_zeros (nrows a) (ncols a)"

definition backprop :: "network \<Rightarrow> ndarray \<Rightarrow> ndarray \<Rightarrow> error + (ndarray list \<times> ndarray list)" where
  "backprop net x y =
     (let nabla_b = map zeros_like (biases net);
          nabla_w = map zeros_like (weights net)
      in
        ebind (forward_cached (zip (biases net) (weights net)) x [x] []) (\<lambda>(activations, zs).
        ebind (py_get activations (- 1)) (\<lambda>a_out.
        ebind (cost_derivative a_out y) (\<lambda>cd.
        ebind (py_get zs (- 1)) (\<lambda>z_out.
        ebind (sigmoid_prime z_out) (\<lambda>sp.
        ebind (np_mul cd sp) (\<lambda>delta.
        ebind (py_set nabla_b (- 1) delta) (\<lambda>nabla_b1.
        ebind (py_get activations (- 2)) (\<lambda>a_prev.
        ebind (np_dot delta (transpose_nd a_prev)) (\<lambda>g.
        ebind (py_set nabla_w (- 1) g) (\<lambda>nabla_w1.
        ebind (backward_loop net activations zs [2..<num_layers net] (delta, nabla_b1, nabla_w1))
          (\<lambda>(delta_end, nabla_b_end, nabla_w_end). Inr (nabla_b_end, nabla_w_end)))))))))))))"

text \<open>A list comprehension whose body can raise: the first error ends it.\<close>

fun map_err :: "('a \<Rightarrow> error + 'b) \<Rightarrow> 'a list \<Rightarrow> error + 'b list" where
  "map_err f [] = Inr []"
| "map_err f (x # xs) = ebind (f x) (\<lambda>v. ebind (map_err f xs) (\<lambda>vs. Inr (v # vs)))"

text \<open>
  \<^verbatim>\<open>evaluate\<close> returns a count when \<^verbatim>\<open>accuracy\<close> is true and the list of the
  output vectors otherwise. It reads the parameters and assigns none of them.
\<close>

datatype eval_result = Count int | Outputs "ndarray list"

definition evaluate :: "network \<Rightarrow> (ndarray \<times> ndarray) list \<Rightarrow> bool \<Rightarrow> error + eval_result" where
  "evaluate net test_data accuracy =
     ebind (map_err (\<lambda>(x, y).
              ebind (feedforward net x) (\<lambda>out.
              ebind (np_argmax out) (\<lambda>y_pred.
              ebind (np_argmax y) (\<lambda>y_lab. Inr (y_pred, y_lab)))))
            test_data) (\<lambda>test_results.
     if accuracy
     then Inr (Count (sum_list (map (\<lambda>(y_pred, y_lab). if y_pred = y_lab then 1 else 0) test_results)))
     else ebind (map_err (\<lambda>(x, y). feedforward net x) test_data) (\<lambda>outs. Inr (Outputs outs)))"

text \<open>The inner loop of \<^verbatim>\<open>SGD\<close>: the gradients of the examples are added up.\<close>

fun accumulate ::
  "network \<Rightarrow> (ndarray \<times> ndarray) list \<Rightarrow> ndarray list \<Rightarrow> ndarray list
     \<Rightarrow> error + (ndarray list \<times> ndarray list)" where
  "accumulate net [] nabla_b nabla_w = Inr (nabla_b, nabla_w)"
| "accumulate net ((x, y) # rest) nabla_b nabla_w =
     ebind (backprop net x y) (\<lambda>(delta_nabla_b, delta_nabla_w).
     ebind (map_err (\<lambda>(nb, dnb). np_add nb dnb) (zip nabla_b delta_nabla_b)) (\<lambda>nabla_b'.
     ebind (map_err (\<lambda>(nw, dnw). np_add nw dnw) (zip nabla_w delta_nabla_w)) (\<lambda>nabla_w'.
     accumulate net rest nabla_b' nabla_w')))"

text \<open>Python's \<^verbatim>\<open>/\<close> of a float by a length.\<close>

definition py_truediv :: "real \<Rightarrow> nat \<Rightarrow> error + real" where
  "py_truediv a n = (if n = 0 then Inl ZeroDivisionError else Inr (a / real n))"

text \<open>
  \<^verbatim>\<open>[w - (learning_rate/len(training_data)) * nw for w, nw in zip(params, nabla)]\<close>:
  the quotient is computed anew for each pair.
\<close>

definition gd_update :: "ndarray list \<Rightarrow> ndarray list \<Rightarrow> real \<Rightarrow> nat \<Rightarrow> error + ndarray list" where
  "gd_update params nabla learning_rate n =
     map_err (\<lambda>(w, nw). ebind (py_truediv learning_rate n) (\<lambda>c. np_sub w (scalar_mul c nw)))
       (zip params nabla)"

text \<open>
  The first half of the body of the \<^verbatim>\<open>while\<close> loop: the accumulators start as
  zeros, the inner loop adds the gradient of every example, then the weights and after
  them the biases are replaced.
\<close>

definition SGD_update :: "network \<Rightarrow> (ndarray \<times> ndarray) list \<Rightarrow> real \<Rightarrow> error + network" where
  "SGD_update net training_data learning_rate =
     ebind (accumulate net training_data (map zeros_like (biases net)) (map zeros_like (weights net)))
       (\<lambda>(nabla_b, nabla_w).
     ebind (gd_update (weights net) nabla_w learning_rate (length training_data)) (\<lambda>ws.
     ebind (gd_update (biases net) nabla_b learning_rate (length training_data)) (\<lambda>bs.
     Inr (net\<lparr>weights := ws, biases := bs\<rparr>))))"

text \<open>
  The whole body up to the new accuracy: the update, then the evaluation on the training
  data and \<^verbatim>\<open>float(true_positives)/len(training_data)\<close>.
\<close>

definition SGD_epoch :: "network \<Rightarrow> (ndarray \<times> ndarray) list \<Rightarrow> real \<Rightarrow> error + (network \<times> real)" where
  "SGD_epoch net training_data learning_rate =
     ebind (SGD_update net training_data learning_rate) (\<lambda>net'.
     ebind (evaluate net' training_data True) (\<lambda>r.
       (case r of
          Count true_positives \<Rightarrow>
            ebind (py_truediv (real_of_int true_positives) (length training_data)) (\<lambda>accuracy_new.
            Inr (net', accuracy_new))
        | Outputs outs \<Rightarrow> Inl TypeError)))"

text \<open>
  The \<^verbatim>\<open>while\<close> loop. It has no bound on the number of epochs, so it is a partial
  function: \<open>None\<close> is a run that never leaves the loop. The last argument collects the
  accuracies printed so far.
\<close>

partial_function (option) SGD_loop ::
  "network \<Rightarrow> (ndarray \<times> ndarray) list \<Rightarrow> real \<Rightarrow> real \<Rightarrow> real list
     \<Rightarrow> (error + (network \<times> real list)) option" where
  "SGD_loop net training_data learning_rate accuracy_new printed =
     (if accuracy_new < 0.8
      then (case SGD_epoch net training_data learning_rate of
              Inl e \<Rightarrow> Some (Inl e)
            | Inr (net', accuracy_new') \<Rightarrow>
                if \<bar>accuracy_new' - accuracy_new\<bar> < 0.00001
                then Some (Inr (net', printed @ [accuracy_new']))
                else SGD_loop net' training_data learning_rate accuracy_new' (printed @ [accuracy_new']))
      else Some (Inr (net, printed)))"

definition SGD ::
  "network \<Rightarrow> (ndarray \<times> ndarray) list \<Rightarrow> real
     \<Rightarrow> (error + (network \<times> real list \<times> eval_result)) option" where
  "SGD net training_data learning_rate =
     (case SGD_loop net training_data learning_rate 0 [] of
        None \<Rightarrow> None
      | Some (Inl e) \<Rightarrow> Some (Inl e)
      | Some (Inr (net', printed)) \<Rightarrow>
          Some (ebind (evaluate net' training_data False) (\<lambda>r. Inr (net', printed, r))))"

section \<open>The mathematics the program is compared with\<close>

text \<open>
  Total matrix operations on arrays of fitting shapes: product, sum, difference and the
  elementwise (Hadamard) product. The numpy operations above agree with them where
  they do not raise.
\<close>

definition mat_mul :: "ndarray \<Rightarrow> ndarray \<Rightarrow> ndarray" where
  "mat_mul a b = mk_array (nrows a) (ncols b) (\<lambda>i j. \<Sum>k<ncols a. entry a i k * entry b k j)"

definition mat_add :: "ndarray \<Rightarrow> ndarray \<Rightarrow> ndarray" where
  "mat_add a b = mk_array (nrows a) (ncols a) (\<lambda>i j. entry a i j + entry b i j)"

definition mat_sub :: "ndarray \<Rightarrow> ndarray \<Rightarrow> ndarray" where
  "mat_sub a b = mk_array (nrows a) (ncols a) (\<lambda>i j. entry a i j - entry b i j)"

definition hadamard :: "ndarray \<Rightarrow> ndarray \<Rightarrow> ndarray" where
  "hadamard a b = mk_array (nrows a) (ncols a) (\<lambda>i j. entry a i j * entry b i j)"

text \<open>
  A network as \<^verbatim>\<open>__init__\<close> leaves it: one weight matrix and one bias vector per
  layer transition, shaped by the adjacent layer sizes.
\<close>

definition wf_network :: "network \<Rightarrow> bool" where
  "wf_network net =
     (num_layers net = length (sizes net) \<and> 2 \<le> length (sizes net) \<and>
      length (biases net) = length (sizes net) - 1 \<and>
      length (weights net) = length (sizes net) - 1 \<and>
      (\<forall>i < length (sizes net) - 1.
         nrows (weights net ! i) = sizes net ! Suc i \<and> ncols (weights net ! i) = sizes net ! i \<and>
         valid (weights net ! i) \<and>
         nrows (biases net ! i) = sizes net ! Suc i \<and> ncols (biases net ! i) = 1 \<and>
         valid (biases net ! i)))"

text \<open>An example whose input and target are column vectors of the declared sizes.\<close>

definition example_ok :: "network \<Rightarrow> ndarray \<times> ndarray \<Rightarrow> bool" where
  "example_ok net ex =
     (nrows (fst ex) = hd (sizes net) \<and> ncols (fst ex) = 1 \<and> valid (fst ex) \<and>
      nrows (snd ex) = last (sizes net) \<and> ncols (snd ex) = 1 \<and> valid (snd ex))"

text \<open>
  The index \<open>L = num_layers - 1\<close> of the output layer, the activation of layer \<open>l\<close>
  (layer 0 is the input) and the pre-activation \<open>z\<close> of layer \<open>l \<ge> 1\<close>. The list
  entry \<open>weights ! l\<close> is the matrix into layer \<open>l + 1\<close>.
\<close>

definition last_layer :: "network \<Rightarrow> nat" where
  "last_layer net = num_layers net - 1"

fun activation_of :: "network \<Rightarrow> ndarray \<Rightarrow> nat \<Rightarrow> ndarray" where
  "activation_of net x 0 = x"
| "activation_of net x (Suc l) =
     sigmoid (mat_add (mat_mul (weights net ! l) (activation_of net x l)) (biases net ! l))"

definition pre_activation_of :: "network \<Rightarrow> ndarray \<Rightarrow> nat \<Rightarrow> ndarray" where
  "pre_activation_of net x l =
     mat_add (mat_mul (weights net ! (l - 1)) (activation_of net x (l - 1))) (biases net ! (l - 1))"

text \<open>The derivative of the sigmoid, entry by entry: \<open>\<sigma>(z) (1 - \<sigma>(z))\<close>.\<close>

definition sigmoid_prime_spec :: "ndarray \<Rightarrow> ndarray" where
  "sigmoid_prime_spec z = map_nd (\<lambda>v. sigmoid_scalar v * (1 - sigmoid_scalar v)) z"

text \<open>
  The error of layer \<open>L - k\<close>, counted back from the output layer, and the two lists
  of gradients once the backward pass has reached the list index \<open>t\<close>.
\<close>

primrec delta_back :: "network \<Rightarrow> ndarray \<Rightarrow> ndarray \<Rightarrow> nat \<Rightarrow> ndarray" where
  "delta_back net x y 0 =
     hadamard (mat_sub (activation_of net x (last_layer net)) y)
       (sigmoid_prime_spec (pre_activation_of net x (last_layer net)))"
| "delta_back net x y (Suc k) =
     hadamard (mat_mul (transpose_nd (weights net ! (last_layer net - Suc k))) (delta_back net x y k))
       (sigmoid_prime_spec (pre_activation_of net x (last_layer net - Suc k)))"

definition delta_of :: "network \<Rightarrow> ndarray \<Rightarrow> ndarray \<Rightarrow> nat \<Rightarrow> ndarray" where
  "delta_of net x y l = delta_back net x y (last_layer net - l)"

definition nabla_b_from :: "network \<Rightarrow> ndarray \<Rightarrow> ndarray \<Rightarrow> nat \<Rightarrow> ndarray list" where
  "nabla_b_from net x y t =
     map (\<lambda>j. if t \<le> j then delta_of net x y (Suc j) else zeros_like (biases net ! j))
       [0..<last_layer net]"

definition nabla_w_from :: "network \<Rightarrow> ndarray \<Rightarrow> ndarray \<Rightarrow> nat \<Rightarrow> ndarray list" where
  "nabla_w_from net x y t =
     map (\<lambda>j. if t \<le> j
              then mat_mul (delta_of net x y (Suc j)) (transpose_nd (activation_of net x j))
              else zeros_like (weights net ! j))
       [0..<last_layer net]"

text \<open>A small network with one hidden layer, and one example for it.\<close>

definition demo_net :: network where
  "demo_net = \<lparr>num_layers = 3, sizes = [2, 1, 1],
                biases = [NDArray 1 1 [0], NDArray 1 1 [1]],
                weights = [NDArray 1 2 [1 / 2, - 1], NDArray 1 1 [2]]\<rparr>"

definition demo_x :: ndarray where
  "demo_x = NDArray 2 1 [1, 0]"

definition demo_y :: ndarray where
  "demo_y = NDArray 1 1 [1]"

definition two_class_net :: network where
  "two_class_net = \<lparr>num_layers = 2, sizes = [1, 2],
                      biases = [NDArray 2 1 [0, 0]],
                      weights = [NDArray 2 1 [0, 0]]\<rparr>"

definition sum_arrays :: "nat \<Rightarrow> nat \<Rightarrow> ndarray list \<Rightarrow> ndarray" where
  "sum_arrays r c gs = mk_array r c (\<lambda>i j. \<Sum>g\<leftarrow>gs. entry g i j)"

definition acc_b :: "network \<Rightarrow> (ndarray \<times> ndarray) list \<Rightarrow> ndarray list" where
  "acc_b net exs =
     map (\<lambda>i. sum_arrays (nrows (biases net ! i)) (ncols (biases net ! i))
                (map (\<lambda>ex. nabla_b_from net (fst ex) (snd ex) 0 ! i) exs))
       [0..<last_layer net]"

definition acc_w :: "network \<Rightarrow> (ndarray \<times> ndarray) list \<Rightarrow> ndarray list" where
  "acc_w net exs =
     map (\<lambda>i. sum_arrays (nrows (weights net ! i)) (ncols (weights net ! i))
                (map (\<lambda>ex. nabla_w_from net (fst ex) (snd ex) 0 ! i) exs))
       [0..<last_layer net]"

definition updated :: "network \<Rightarrow> (ndarray \<times> ndarray) list \<Rightarrow> real \<Rightarrow> network" where
  "updated net td lr =
     net\<lparr>weights :=
           map (\<lambda>i. mat_sub (weights net ! i)
                      (scalar_mul (lr / real (length td)) (acc_w net td ! i)))
             [0..<last_layer net],
         biases :=
           map (\<lambda>i. mat_sub (biases net ! i)
                      (scalar_mul (lr / real (length td)) (acc_b net td ! i)))
             [0..<last_layer net]\<rparr>"



definition one_output_net :: network where
  "one_output_net = \<lparr>num_layers = 2, sizes = [1, 1],
                       biases = [NDArray 1 1 [0]],
                       weights = [NDArray 1 1 [0]]\<rparr>"

section \<open>Arrays and the numpy operations\<close>

lemma ebind_Inr [simp]: "ebind (Inr v) f = f v"
  by (simp add: ebind_def)

lemma ebind_Inl [simp]: "ebind (Inl e) f = Inl e"
  by (simp add: ebind_def)

lemma nrows_mk_array [simp]: "nrows (mk_array r c f) = r"
  by (simp add: mk_array_def)

lemma ncols_mk_array [simp]: "ncols (mk_array r c f) = c"
  by (simp add: mk_array_def)

lemma valid_mk_array [simp]: "valid (mk_array r c f)"
  by (simp add: mk_array_def valid_def)

lemma index_in_range: "i < r \<Longrightarrow> j < c \<Longrightarrow> i * c + j < r * (c::nat)"
proof -
  assume a: "i < r" "j < c"
  then have "i * c + j < i * c + c" by simp
  also have "\<dots> = Suc i * c" by simp
  also from a have "\<dots> \<le> r * c" by (intro mult_le_mono1) simp
  finally show ?thesis .
qed


lemma mk_array_cong:
  "(\<And>i j. i < r \<Longrightarrow> j < c \<Longrightarrow> f i j = g i j) \<Longrightarrow> mk_array r c f = mk_array r c g"
proof -
  assume h: "\<And>i j. i < r \<Longrightarrow> j < c \<Longrightarrow> f i j = g i j"
  have "f (k div c) (k mod c) = g (k div c) (k mod c)" if "k < r * c" for k
  proof -
    from that have "0 < c" by (cases c) auto
    moreover from that have "k div c < r" by (simp add: less_mult_imp_div_less)
    ultimately show ?thesis by (intro h) auto
  qed
  then show ?thesis unfolding mk_array_def by simp
qed

lemma np_dot_ok: "ncols a = nrows b \<Longrightarrow> np_dot a b = Inr (mat_mul a b)"
  by (simp add: np_dot_def mat_mul_def interv_sum_list_conv_sum_set_nat atLeast0LessThan)

lemma np_dot_bad: "ncols a \<noteq> nrows b \<Longrightarrow> np_dot a b = Inl ValueError"
  by (simp add: np_dot_def)

lemma bidx_row: "k < r * c \<Longrightarrow> bidx r (k div c) = k div c"
  by (auto simp: bidx_def)

lemma bidx_col: "bidx c (k mod c) = k mod c"
  by (auto simp: bidx_def)

lemma broadcast2_same:
  assumes "nrows a = nrows b" "ncols a = ncols b"
  shows "broadcast2 f a b = Inr (mk_array (nrows a) (ncols a) (\<lambda>i j. f (entry a i j) (entry b i j)))"
  using assms unfolding broadcast2_def bdim_def
  by (auto simp: bidx_def intro!: mk_array_cong)

lemma nrows_map_nd [simp]: "nrows (map_nd g a) = nrows a"
  by (simp add: map_nd_def)

lemma ncols_map_nd [simp]: "ncols (map_nd g a) = ncols a"
  by (simp add: map_nd_def)

lemma valid_map_nd [simp]: "valid (map_nd g a) = valid a"
  by (simp add: map_nd_def valid_def)

lemma index_div: "j < c \<Longrightarrow> (i * c + j) div c = (i::nat)"
  by simp

lemma mk_array_entry_self: "valid a \<Longrightarrow> mk_array (nrows a) (ncols a) (entry a) = a"
  by (cases a) (auto simp: mk_array_def valid_def entry_def intro!: nth_equalityI)

lemma mk_array_map_nd:
  assumes "valid a"
  shows "mk_array (nrows a) (ncols a) (\<lambda>i j. g (entry a i j)) = map_nd g a"
proof -
  have "map (\<lambda>k. g (elems a ! (k div ncols a * ncols a + k mod ncols a))) [0..<nrows a * ncols a]
        = map g (elems a)"
    using assms by (auto simp: valid_def intro!: nth_equalityI)
  then show ?thesis by (simp add: mk_array_def map_nd_def entry_def)
qed

lemma entry_map_nd:
  "valid a \<Longrightarrow> i < nrows a \<Longrightarrow> j < ncols a \<Longrightarrow> entry (map_nd g a) i j = g (entry a i j)"
  by (simp add: entry_def map_nd_def valid_def index_in_range)

lemma sigmoid_prime_ok:
  assumes "valid z"
  shows "sigmoid_prime z = Inr (sigmoid_prime_spec z)"
proof -
  have "sigmoid_prime z =
        Inr (mk_array (nrows z) (ncols z)
              (\<lambda>i j. entry (sigmoid z) i j * entry (scalar_rsub 1 (sigmoid z)) i j))"
    by (simp add: sigmoid_prime_def np_mul_def sigmoid_def scalar_rsub_def broadcast2_same)
  also have "mk_array (nrows z) (ncols z)
              (\<lambda>i j. entry (sigmoid z) i j * entry (scalar_rsub 1 (sigmoid z)) i j)
           = mk_array (nrows z) (ncols z)
              (\<lambda>i j. sigmoid_scalar (entry z i j) * (1 - sigmoid_scalar (entry z i j)))"
    using assms
    by (intro mk_array_cong) (simp add: sigmoid_def scalar_rsub_def entry_map_nd)
  also have "\<dots> = sigmoid_prime_spec z"
    unfolding sigmoid_prime_spec_def using assms by (rule mk_array_map_nd)
  finally show ?thesis .
qed

lemma nrows_mat_mul [simp]: "nrows (mat_mul a b) = nrows a"
  by (simp add: mat_mul_def)

lemma ncols_mat_mul [simp]: "ncols (mat_mul a b) = ncols b"
  by (simp add: mat_mul_def)

lemma valid_mat_mul [simp]: "valid (mat_mul a b)"
  by (simp add: mat_mul_def)

lemma nrows_mat_add [simp]: "nrows (mat_add a b) = nrows a"
  by (simp add: mat_add_def)

lemma ncols_mat_add [simp]: "ncols (mat_add a b) = ncols a"
  by (simp add: mat_add_def)

lemma valid_mat_add [simp]: "valid (mat_add a b)"
  by (simp add: mat_add_def)

lemma nrows_mat_sub [simp]: "nrows (mat_sub a b) = nrows a"
  by (simp add: mat_sub_def)

lemma ncols_mat_sub [simp]: "ncols (mat_sub a b) = ncols a"
  by (simp add: mat_sub_def)

lemma valid_mat_sub [simp]: "valid (mat_sub a b)"
  by (simp add: mat_sub_def)

lemma nrows_hadamard [simp]: "nrows (hadamard a b) = nrows a"
  by (simp add: hadamard_def)

lemma ncols_hadamard [simp]: "ncols (hadamard a b) = ncols a"
  by (simp add: hadamard_def)

lemma valid_hadamard [simp]: "valid (hadamard a b)"
  by (simp add: hadamard_def)

lemma nrows_transpose_nd [simp]: "nrows (transpose_nd a) = ncols a"
  by (simp add: transpose_nd_def)

lemma ncols_transpose_nd [simp]: "ncols (transpose_nd a) = nrows a"
  by (simp add: transpose_nd_def)

lemma valid_transpose_nd [simp]: "valid (transpose_nd a)"
  by (simp add: transpose_nd_def)

lemma nrows_sigmoid [simp]: "nrows (sigmoid a) = nrows a"
  by (simp add: sigmoid_def)

lemma ncols_sigmoid [simp]: "ncols (sigmoid a) = ncols a"
  by (simp add: sigmoid_def)

lemma valid_sigmoid [simp]: "valid (sigmoid a) = valid a"
  by (simp add: sigmoid_def)

lemma nrows_sigmoid_prime_spec [simp]: "nrows (sigmoid_prime_spec a) = nrows a"
  by (simp add: sigmoid_prime_spec_def)

lemma ncols_sigmoid_prime_spec [simp]: "ncols (sigmoid_prime_spec a) = ncols a"
  by (simp add: sigmoid_prime_spec_def)

lemma nrows_zeros_like [simp]: "nrows (zeros_like a) = nrows a"
  by (simp add: zeros_like_def np_zeros_def)

lemma ncols_zeros_like [simp]: "ncols (zeros_like a) = ncols a"
  by (simp add: zeros_like_def np_zeros_def)

lemma valid_zeros_like [simp]: "valid (zeros_like a)"
  by (simp add: zeros_like_def np_zeros_def valid_def)

lemma np_add_ok: "nrows a = nrows b \<Longrightarrow> ncols a = ncols b \<Longrightarrow> np_add a b = Inr (mat_add a b)"
  by (simp add: np_add_def mat_add_def broadcast2_same)

lemma np_sub_ok: "nrows a = nrows b \<Longrightarrow> ncols a = ncols b \<Longrightarrow> np_sub a b = Inr (mat_sub a b)"
  by (simp add: np_sub_def mat_sub_def broadcast2_same)

lemma np_mul_ok: "nrows a = nrows b \<Longrightarrow> ncols a = ncols b \<Longrightarrow> np_mul a b = Inr (hadamard a b)"
  by (simp add: np_mul_def hadamard_def broadcast2_same)

lemma py_index_neg:
  "0 < k \<Longrightarrow> k \<le> n \<Longrightarrow> py_index n (- int k) = Inr (n - k)"
  by (simp add: py_index_def nat_diff_distrib' of_nat_diff)

lemma py_get_neg:
  "0 < k \<Longrightarrow> k \<le> length xs \<Longrightarrow> py_get xs (- int k) = Inr (xs ! (length xs - k))"
  by (simp add: py_get_def py_index_neg)

lemma py_set_neg:
  "0 < k \<Longrightarrow> k \<le> length xs \<Longrightarrow> py_set xs (- int k) v = Inr (xs[length xs - k := v])"
  by (simp add: py_set_def py_index_neg)

section \<open>The forward pass\<close>

text \<open>Shapes along the forward pass.\<close>

lemma wf_weights:
  "wf_network net \<Longrightarrow> i < last_layer net \<Longrightarrow>
     nrows (weights net ! i) = sizes net ! Suc i \<and> ncols (weights net ! i) = sizes net ! i \<and>
     nrows (biases net ! i) = sizes net ! Suc i \<and> ncols (biases net ! i) = 1"
  by (simp add: wf_network_def last_layer_def)

lemma wf_lengths:
  "wf_network net \<Longrightarrow>
     length (weights net) = last_layer net \<and> length (biases net) = last_layer net \<and>
     num_layers net = Suc (last_layer net) \<and> 0 < last_layer net \<and>
     length (sizes net) = Suc (last_layer net)"
  by (auto simp: wf_network_def last_layer_def)

lemma shape_activation_of:
  assumes "wf_network net" "nrows x = hd (sizes net)" "ncols x = 1"
  shows "l \<le> last_layer net \<Longrightarrow>
           nrows (activation_of net x l) = sizes net ! l \<and> ncols (activation_of net x l) = 1"
proof (induction l)
  case 0
  from assms(1) have "sizes net \<noteq> []" by (auto simp: wf_network_def)
  with assms show ?case by (simp add: hd_conv_nth)
next
  case (Suc l)
  then show ?case using wf_weights [OF assms(1), of l] by simp
qed

lemma shape_pre_activation_of:
  assumes "wf_network net" "nrows x = hd (sizes net)" "ncols x = 1" "0 < l" "l \<le> last_layer net"
  shows "nrows (pre_activation_of net x l) = sizes net ! l \<and> ncols (pre_activation_of net x l) = 1"
  using wf_weights [OF assms(1), of "l - 1"] shape_activation_of [OF assms(1-3), of "l - 1"] assms(4,5)
  by (simp add: pre_activation_of_def)

lemma forward_step:
  assumes "wf_network net" "nrows x = hd (sizes net)" "ncols x = 1" "i < last_layer net"
  shows "forward_cached (drop i (zip (biases net) (weights net))) (activation_of net x i) A Z =
         forward_cached (drop (Suc i) (zip (biases net) (weights net))) (activation_of net x (Suc i))
            (A @ [activation_of net x (Suc i)]) (Z @ [pre_activation_of net x (Suc i)])"
proof -
  from assms have len: "i < length (zip (biases net) (weights net))"
    using wf_lengths [OF assms(1)] by simp
  have d: "drop i (zip (biases net) (weights net)) =
           (biases net ! i, weights net ! i) # drop (Suc i) (zip (biases net) (weights net))"
    using len by (simp flip: Cons_nth_drop_Suc)
  have sh: "ncols (weights net ! i) = nrows (activation_of net x i)"
           "ncols (activation_of net x i) = 1"
    using wf_weights [OF assms(1,4)] shape_activation_of [OF assms(1-3), of i] assms(4) by simp_all
  have dot: "np_dot (weights net ! i) (activation_of net x i) =
             Inr (mat_mul (weights net ! i) (activation_of net x i))"
    using sh by (simp add: np_dot_ok)
  have add: "np_add (mat_mul (weights net ! i) (activation_of net x i)) (biases net ! i) =
             Inr (mat_add (mat_mul (weights net ! i) (activation_of net x i)) (biases net ! i))"
    using sh wf_weights [OF assms(1,4)] by (simp add: np_add_ok)
  show ?thesis
    by (simp add: d dot add pre_activation_of_def)
qed

lemma forward_from:
  assumes "wf_network net" "nrows x = hd (sizes net)" "ncols x = 1"
  shows "i \<le> last_layer net \<Longrightarrow>
         forward_cached (drop i (zip (biases net) (weights net))) (activation_of net x i) A Z =
         Inr (A @ map (activation_of net x) [Suc i..<Suc (last_layer net)],
              Z @ map (pre_activation_of net x) [Suc i..<Suc (last_layer net)])"
proof (induction "last_layer net - i" arbitrary: i A Z)
  case 0
  then have "i = last_layer net" by simp
  then show ?case using wf_lengths [OF assms(1)] by simp
next
  case (Suc n)
  then have lt: "i < last_layer net" and n: "n = last_layer net - Suc i" by simp_all
  have up: "[Suc i..<Suc (last_layer net)] = Suc i # [Suc (Suc i)..<Suc (last_layer net)]"
    using lt by (simp add: upt_conv_Cons)
  show ?case
    using Suc.hyps(1) [OF n, of "A @ [activation_of net x (Suc i)]"
                               "Z @ [pre_activation_of net x (Suc i)]"] lt
    by (simp only: forward_step [OF assms lt] up) simp
qed

lemma forward_cached_ok:
  assumes "wf_network net" "nrows x = hd (sizes net)" "ncols x = 1"
  shows "forward_cached (zip (biases net) (weights net)) x [x] [] =
         Inr (map (activation_of net x) [0..<Suc (last_layer net)],
              map (pre_activation_of net x) [Suc 0..<Suc (last_layer net)])"
proof -
  have "[0..<Suc (last_layer net)] = 0 # [Suc 0..<Suc (last_layer net)]"
    by (simp add: upt_conv_Cons)
  then show ?thesis
    using forward_from [OF assms, of 0 "[x]" "[]"] by simp
qed

section \<open>The backward pass\<close>

lemma delta_of_top:
  "delta_of net x y (last_layer net) =
     hadamard (mat_sub (activation_of net x (last_layer net)) y)
       (sigmoid_prime_spec (pre_activation_of net x (last_layer net)))"
  by (simp add: delta_of_def)

lemma delta_of_rec:
  assumes "m < last_layer net"
  shows "delta_of net x y m =
     hadamard (mat_mul (transpose_nd (weights net ! m)) (delta_of net x y (Suc m)))
       (sigmoid_prime_spec (pre_activation_of net x m))"
proof -
  from assms obtain k where k: "last_layer net - m = Suc k"
    by (cases "last_layer net - m") auto
  with assms have "last_layer net - Suc k = m" "last_layer net - Suc m = k" by arith+
  then show ?thesis by (simp add: delta_of_def k)
qed

lemma shape_delta_back:
  assumes "wf_network net" "nrows x = hd (sizes net)" "ncols x = 1"
  shows "k < last_layer net \<Longrightarrow>
         nrows (delta_back net x y k) = sizes net ! (last_layer net - k) \<and>
         ncols (delta_back net x y k) = 1"
proof (induction k)
  case 0
  then show ?case using shape_activation_of [OF assms, of "last_layer net"] by simp
next
  case (Suc k)
  then show ?case using wf_weights [OF assms(1), of "last_layer net - Suc k"] by simp
qed

lemma shape_delta_of:
  assumes "wf_network net" "nrows x = hd (sizes net)" "ncols x = 1" "0 < m" "m \<le> last_layer net"
  shows "nrows (delta_of net x y m) = sizes net ! m \<and> ncols (delta_of net x y m) = 1"
  using shape_delta_back [OF assms(1-3), of "last_layer net - m" y] assms(4,5)
  by (simp add: delta_of_def)

lemma py_get_neg_plus1:
  "1 < l \<Longrightarrow> l \<le> Suc (length xs) \<Longrightarrow> py_get xs (- int l + 1) = Inr (xs ! (Suc (length xs) - l))"
  using py_get_neg [of "l - 1" xs] by (simp add: of_nat_diff Suc_diff_le)

lemma py_get_neg_minus1:
  "Suc l \<le> length xs \<Longrightarrow> py_get xs (- int l - 1) = Inr (xs ! (length xs - Suc l))"
proof -
  assume h: "Suc l \<le> length xs"
  have e: "- int l - 1 = - int (Suc l)" by simp
  show ?thesis unfolding e by (rule py_get_neg) (use h in simp_all)
qed

lemma backward_step_ok:
  assumes wf: "wf_network net" and xs: "nrows x = hd (sizes net)" "ncols x = 1"
    and m: "0 < m" "m < last_layer net"
    and A: "A = map (activation_of net x) [0..<Suc (last_layer net)]"
    and Z: "Z = map (pre_activation_of net x) [Suc 0..<Suc (last_layer net)]"
  shows "backward_step net A Z (Suc (last_layer net) - m)
           (delta_of net x y (Suc m), nabla_b_from net x y m, nabla_w_from net x y m) =
         Inr (delta_of net x y m, nabla_b_from net x y (m - 1), nabla_w_from net x y (m - 1))"
proof -
  let ?L = "last_layer net"
  let ?l = "Suc ?L - m"
  note len = wf_lengths [OF wf]
  have l: "1 < ?l" "?l \<le> ?L" using m by arith+
  have lenZ: "length Z = ?L" and lenA: "length A = Suc ?L" by (simp_all add: A Z)
  have idx: "?L - ?l = m - 1" "Suc ?L - ?l = m" "Suc ?L - Suc ?l = m - 1" using m by arith+
  have Zn: "Z ! i = pre_activation_of net x (Suc i)" if "i < ?L" for i
    using that unfolding Z by (simp add: nth_map_upt del: upt_Suc)
  have An: "A ! i = activation_of net x i" if "i < Suc ?L" for i
    using that unfolding A by (simp add: nth_map_upt del: upt_Suc)
  have "py_get Z (- int ?l) = Inr (Z ! (length Z - ?l))"
    by (rule py_get_neg) (use l lenZ in simp_all)
  then have z: "py_get Z (- int ?l) = Inr (pre_activation_of net x m)"
    using Zn [of "m - 1"] m by (simp only: lenZ idx) simp
  have sp: "sigmoid_prime (pre_activation_of net x m) =
            Inr (sigmoid_prime_spec (pre_activation_of net x m))"
    by (rule sigmoid_prime_ok) (simp add: pre_activation_of_def)
  have w: "py_get (weights net) (- int ?l + 1) = Inr (weights net ! m)"
    using py_get_neg_plus1 [of ?l "weights net"] l len by (simp add: idx)
  have shw: "nrows (weights net ! m) = sizes net ! Suc m" "ncols (weights net ! m) = sizes net ! m"
    using wf_weights [OF wf m(2)] by simp_all
  have shd: "nrows (delta_of net x y (Suc m)) = sizes net ! Suc m" "ncols (delta_of net x y (Suc m)) = 1"
    using shape_delta_of [OF wf xs, of "Suc m" y] m by simp_all
  have d: "np_dot (transpose_nd (weights net ! m)) (delta_of net x y (Suc m)) =
           Inr (mat_mul (transpose_nd (weights net ! m)) (delta_of net x y (Suc m)))"
    by (rule np_dot_ok) (simp add: shw shd)
  have shp: "nrows (pre_activation_of net x m) = sizes net ! m" "ncols (pre_activation_of net x m) = 1"
    using shape_pre_activation_of [OF wf xs, of m] m by simp_all
  have mul: "np_mul (mat_mul (transpose_nd (weights net ! m)) (delta_of net x y (Suc m)))
               (sigmoid_prime_spec (pre_activation_of net x m)) = Inr (delta_of net x y m)"
    by (simp add: np_mul_ok shw shd shp delta_of_rec [OF m(2)])
  have lnb: "length (nabla_b_from net x y m) = ?L" "length (nabla_w_from net x y m) = ?L"
    by (simp_all add: nabla_b_from_def nabla_w_from_def)
  have sb: "py_set (nabla_b_from net x y m) (- int ?l) (delta_of net x y m) =
            Inr (nabla_b_from net x y (m - 1))"
  proof -
    have "(nabla_b_from net x y m)[m - 1 := delta_of net x y m] = nabla_b_from net x y (m - 1)"
      using m by (auto simp: nabla_b_from_def nth_list_update intro!: nth_equalityI)
    then show ?thesis using py_set_neg [of ?l "nabla_b_from net x y m"] l by (simp add: lnb idx)
  qed
  have "py_get A (- int ?l - 1) = Inr (A ! (length A - Suc ?l))"
    by (rule py_get_neg_minus1) (use l lenA in simp)
  then have a: "py_get A (- int ?l - 1) = Inr (activation_of net x (m - 1))"
    using An [of "m - 1"] m by (simp only: lenA idx)
  have sha: "ncols (activation_of net x (m - 1)) = 1"
    using shape_activation_of [OF wf xs, of "m - 1"] m by simp
  have shdm: "ncols (delta_of net x y m) = 1"
    using shape_delta_of [OF wf xs, of m y] m by simp
  have g: "np_dot (delta_of net x y m) (transpose_nd (activation_of net x (m - 1))) =
           Inr (mat_mul (delta_of net x y m) (transpose_nd (activation_of net x (m - 1))))"
    by (rule np_dot_ok) (use sha shdm in simp)
  have sw: "py_set (nabla_w_from net x y m) (- int ?l)
              (mat_mul (delta_of net x y m) (transpose_nd (activation_of net x (m - 1)))) =
            Inr (nabla_w_from net x y (m - 1))"
  proof -
    have "(nabla_w_from net x y m)[m - 1 :=
             mat_mul (delta_of net x y m) (transpose_nd (activation_of net x (m - 1)))]
          = nabla_w_from net x y (m - 1)"
      using m by (auto simp: nabla_w_from_def nth_list_update intro!: nth_equalityI)
    then show ?thesis using py_set_neg [of ?l "nabla_w_from net x y m"] l by (simp add: lnb idx)
  qed
  show ?thesis
    unfolding backward_step_def by (simp only: z sp w d mul sb a g sw ebind_Inr prod.case)
qed

lemma backward_loop_ok:
  assumes wf: "wf_network net" and xs: "nrows x = hd (sizes net)" "ncols x = 1"
    and A: "A = map (activation_of net x) [0..<Suc (last_layer net)]"
    and Z: "Z = map (pre_activation_of net x) [Suc 0..<Suc (last_layer net)]"
  shows "m < last_layer net \<Longrightarrow>
         backward_loop net A Z [Suc (last_layer net) - m..<Suc (last_layer net)]
           (delta_of net x y (Suc m), nabla_b_from net x y m, nabla_w_from net x y m) =
         Inr (delta_of net x y 1, nabla_b_from net x y 0, nabla_w_from net x y 0)"
proof (induction m)
  case 0
  then show ?case by simp
next
  case (Suc m)
  let ?L = "last_layer net"
  from Suc.prems have m: "m < ?L" by simp
  have up: "[Suc ?L - Suc m..<Suc ?L] = (Suc ?L - Suc m) # [Suc ?L - m..<Suc ?L]"
  proof -
    have e: "Suc (Suc ?L - Suc m) = Suc ?L - m" using Suc.prems by arith
    have "Suc ?L - Suc m < Suc ?L" by arith
    from upt_conv_Cons [OF this] show ?thesis by (simp only: e)
  qed
  have step: "backward_step net A Z (Suc ?L - Suc m)
           (delta_of net x y (Suc (Suc m)), nabla_b_from net x y (Suc m), nabla_w_from net x y (Suc m)) =
         Inr (delta_of net x y (Suc m), nabla_b_from net x y m, nabla_w_from net x y m)"
    using backward_step_ok [OF wf xs _ Suc.prems A Z, of y] by simp
  show ?case
    by (simp only: up backward_loop.simps step ebind_Inr Suc.IH [OF m])
qed

lemma py_get_m1: "xs \<noteq> [] \<Longrightarrow> py_get xs (- 1) = Inr (xs ! (length xs - 1))"
  using py_get_neg [of 1 xs] by (cases xs) simp_all

lemma py_get_m2: "2 \<le> length xs \<Longrightarrow> py_get xs (- 2) = Inr (xs ! (length xs - 2))"
  using py_get_neg [of 2 xs] by simp

lemma py_set_m1: "xs \<noteq> [] \<Longrightarrow> py_set xs (- 1) v = Inr (xs[length xs - 1 := v])"
  using py_set_neg [of 1 xs] by (cases xs) simp_all

lemma backprop_ok:
  assumes wf: "wf_network net" and xs: "nrows x = hd (sizes net)" "ncols x = 1"
    and ys: "nrows y = last (sizes net)" "ncols y = 1"
  shows "backprop net x y = Inr (nabla_b_from net x y 0, nabla_w_from net x y 0)"
proof -
  let ?L = "last_layer net"
  let ?A = "map (activation_of net x) [0..<Suc ?L]"
  let ?Z = "map (pre_activation_of net x) [Suc 0..<Suc ?L]"
  note len = wf_lengths [OF wf]
  from len have L: "0 < ?L" by simp
  have fwd: "forward_cached (zip (biases net) (weights net)) x [x] [] = Inr (?A, ?Z)"
    by (rule forward_cached_ok [OF wf xs])
  have An: "?A ! i = activation_of net x i" if "i < Suc ?L" for i
    using that by (simp add: nth_map_upt del: upt_Suc)
  have Zn: "?Z ! i = pre_activation_of net x (Suc i)" if "i < ?L" for i
    using that by (simp add: nth_map_upt del: upt_Suc)
  have lenA: "length ?A = Suc ?L" and lenZ: "length ?Z = ?L" by simp_all
  have "py_get ?A (- 1) = Inr (?A ! (length ?A - 1))"
    by (rule py_get_m1) (simp del: upt_Suc)
  then have a_out: "py_get ?A (- 1) = Inr (activation_of net x ?L)"
    using An [of ?L] by (simp only: lenA) simp
  have lastsz: "last (sizes net) = sizes net ! ?L"
  proof -
    from len have "sizes net \<noteq> []" by auto
    then show ?thesis using len by (simp add: last_conv_nth)
  qed
  have sha: "nrows (activation_of net x ?L) = sizes net ! ?L" "ncols (activation_of net x ?L) = 1"
    using shape_activation_of [OF wf xs, of ?L] by simp_all
  have cd: "cost_derivative (activation_of net x ?L) y = Inr (mat_sub (activation_of net x ?L) y)"
    unfolding cost_derivative_def by (rule np_sub_ok) (simp_all add: sha ys lastsz)
  have "py_get ?Z (- 1) = Inr (?Z ! (length ?Z - 1))"
    by (rule py_get_m1) (use L in \<open>simp del: upt_Suc\<close>)
  then have z_out: "py_get ?Z (- 1) = Inr (pre_activation_of net x ?L)"
    using Zn [of "?L - 1"] L by (simp only: lenZ) simp
  have sp: "sigmoid_prime (pre_activation_of net x ?L) =
            Inr (sigmoid_prime_spec (pre_activation_of net x ?L))"
    by (rule sigmoid_prime_ok) (simp add: pre_activation_of_def)
  have shp: "nrows (pre_activation_of net x ?L) = sizes net ! ?L" "ncols (pre_activation_of net x ?L) = 1"
    using shape_pre_activation_of [OF wf xs, of ?L] L by simp_all
  have mul: "np_mul (mat_sub (activation_of net x ?L) y)
               (sigmoid_prime_spec (pre_activation_of net x ?L)) = Inr (delta_of net x y ?L)"
    by (simp add: np_mul_ok sha shp delta_of_top)
  have sb: "py_set (map zeros_like (biases net)) (- 1) (delta_of net x y ?L) =
            Inr (nabla_b_from net x y (?L - 1))"
  proof -
    have "(map zeros_like (biases net))[?L - 1 := delta_of net x y ?L] = nabla_b_from net x y (?L - 1)"
      using L len by (auto simp: nabla_b_from_def nth_list_update intro!: nth_equalityI)
    moreover have "map zeros_like (biases net) \<noteq> []" using len by auto
    ultimately show ?thesis using py_set_m1 [of "map zeros_like (biases net)"] len by simp
  qed
  have "py_get ?A (- 2) = Inr (?A ! (length ?A - 2))"
    by (rule py_get_m2) (use L in \<open>simp del: upt_Suc\<close>)
  then have a_prev: "py_get ?A (- 2) = Inr (activation_of net x (?L - 1))"
    using An [of "?L - 1"] L by (simp only: lenA) simp
  have shap: "ncols (activation_of net x (?L - 1)) = 1"
    using shape_activation_of [OF wf xs, of "?L - 1"] by simp
  have shd: "ncols (delta_of net x y ?L) = 1"
    using shape_delta_of [OF wf xs L order_refl, of y] by simp
  have g: "np_dot (delta_of net x y ?L) (transpose_nd (activation_of net x (?L - 1))) =
           Inr (mat_mul (delta_of net x y ?L) (transpose_nd (activation_of net x (?L - 1))))"
    by (rule np_dot_ok) (use shap shd in simp)
  have sw: "py_set (map zeros_like (weights net)) (- 1)
              (mat_mul (delta_of net x y ?L) (transpose_nd (activation_of net x (?L - 1)))) =
            Inr (nabla_w_from net x y (?L - 1))"
  proof -
    have "(map zeros_like (weights net))[?L - 1 :=
             mat_mul (delta_of net x y ?L) (transpose_nd (activation_of net x (?L - 1)))]
          = nabla_w_from net x y (?L - 1)"
      using L len by (auto simp: nabla_w_from_def nth_list_update intro!: nth_equalityI)
    moreover have "map zeros_like (weights net) \<noteq> []" using len by auto
    ultimately show ?thesis using py_set_m1 [of "map zeros_like (weights net)"] len by simp
  qed
  have rng: "[2..<num_layers net] = [Suc ?L - (?L - 1)..<Suc ?L]"
    using len L by (simp add: Suc_diff_le numeral_2_eq_2 del: upt_Suc)
  have loop: "backward_loop net ?A ?Z [2..<num_layers net]
           (delta_of net x y ?L, nabla_b_from net x y (?L - 1), nabla_w_from net x y (?L - 1)) =
         Inr (delta_of net x y 1, nabla_b_from net x y 0, nabla_w_from net x y 0)"
    unfolding rng using backward_loop_ok [OF wf xs refl refl, of "?L - 1" y] L by simp
  show ?thesis
    unfolding backprop_def Let_def
    by (simp only: fwd a_out cd z_out sp mul sb a_prev g sw loop ebind_Inr prod.case)
qed

lemma length_nabla_from [simp]:
  "length (nabla_b_from net x y t) = last_layer net" "length (nabla_w_from net x y t) = last_layer net"
  by (simp_all add: nabla_b_from_def nabla_w_from_def)

lemma nth_nabla_from_0:
  "j < last_layer net \<Longrightarrow> nabla_b_from net x y 0 ! j = delta_of net x y (Suc j)"
  "j < last_layer net \<Longrightarrow> nabla_w_from net x y 0 ! j =
       mat_mul (delta_of net x y (Suc j)) (transpose_nd (activation_of net x j))"
  by (simp_all add: nabla_b_from_def nabla_w_from_def nth_map_upt del: upt_Suc)

lemma example_okD:
  "example_ok net (x, y) \<Longrightarrow>
     nrows x = hd (sizes net) \<and> ncols x = 1 \<and> nrows y = last (sizes net) \<and> ncols y = 1"
  by (simp add: example_ok_def)

lemma backprop_shapes:
  assumes wf: "wf_network net" and ex: "example_ok net (x, y)" and j: "j < last_layer net"
  shows "nrows (nabla_b_from net x y 0 ! j) = nrows (biases net ! j)"
    "ncols (nabla_b_from net x y 0 ! j) = ncols (biases net ! j)"
    "nrows (nabla_w_from net x y 0 ! j) = nrows (weights net ! j)"
    "ncols (nabla_w_from net x y 0 ! j) = ncols (weights net ! j)"
proof -
  note e = example_okD [OF ex]
  from e have xs: "nrows x = hd (sizes net)" "ncols x = 1" by simp_all
  have d: "nrows (delta_of net x y (Suc j)) = sizes net ! Suc j" "ncols (delta_of net x y (Suc j)) = 1"
    using shape_delta_of [OF wf xs, of "Suc j" y] j by simp_all
  have a: "nrows (activation_of net x j) = sizes net ! j"
    using shape_activation_of [OF wf xs, of j] j by simp
  note w = wf_weights [OF wf j]
  show "nrows (nabla_b_from net x y 0 ! j) = nrows (biases net ! j)"
    "ncols (nabla_b_from net x y 0 ! j) = ncols (biases net ! j)"
    "nrows (nabla_w_from net x y 0 ! j) = nrows (weights net ! j)"
    "ncols (nabla_w_from net x y 0 ! j) = ncols (weights net ! j)"
    using j d a w by (simp_all add: nth_nabla_from_0)
qed

lemma wf_demo_net: "wf_network demo_net"
  by (simp add: wf_network_def demo_net_def valid_def less_Suc_eq numeral_2_eq_2)

lemma example_ok_demo: "example_ok demo_net (demo_x, demo_y)"
  by (simp add: example_ok_def demo_net_def demo_x_def demo_y_def valid_def)

lemma wf_two_class_net: "wf_network two_class_net"
  by (simp add: wf_network_def two_class_net_def valid_def)

lemma sigmoid_scalar_0: "sigmoid_scalar 0 = 1 / 2"
  by (simp add: sigmoid_scalar_def)

lemma upt_2: "[0..<2] = [0, 1]"
  by (simp add: upt_conv_Cons)

lemma bdim_None: "m \<noteq> n \<Longrightarrow> m \<noteq> 1 \<Longrightarrow> n \<noteq> 1 \<Longrightarrow> bdim m n = None"
  by (simp add: bdim_def)

lemma np_sub_bad:
  "nrows a \<noteq> nrows b \<Longrightarrow> nrows a \<noteq> 1 \<Longrightarrow> nrows b \<noteq> 1 \<Longrightarrow> np_sub a b = Inl ValueError"
  by (simp add: np_sub_def broadcast2_def bdim_None)

lemma forward_cached_bad_input:
  assumes wf: "wf_network net" and x: "nrows x \<noteq> hd (sizes net)"
  shows "forward_cached (zip (biases net) (weights net)) x A Z = Inl ValueError"
proof -
  note len = wf_lengths [OF wf]
  from len have "0 < length (zip (biases net) (weights net))" by simp
  then have z: "zip (biases net) (weights net) =
        (biases net ! 0, weights net ! 0) # drop (Suc 0) (zip (biases net) (weights net))"
    by (metis Cons_nth_drop_Suc drop0 nth_zip length_zip min_less_iff_conj)
  from len have "sizes net \<noteq> []" by auto
  then have "hd (sizes net) = sizes net ! 0" by (simp add: hd_conv_nth)
  with x wf_weights [OF wf, of 0] len have "ncols (weights net ! 0) \<noteq> nrows x" by simp
  then have "np_dot (weights net ! 0) x = Inl ValueError" by (rule np_dot_bad)
  then show ?thesis by (subst z) simp
qed

lemma SGD_epoch_empty: "SGD_epoch net [] learning_rate = Inl ZeroDivisionError"
proof (cases "weights net")
  case (Cons w ws)
  then show ?thesis
    by (simp add: SGD_epoch_def SGD_update_def gd_update_def py_truediv_def)
next
  case Nil
  note w = Nil
  show ?thesis
  proof (cases "biases net")
    case (Cons b bs)
    then show ?thesis
      by (simp add: SGD_epoch_def SGD_update_def gd_update_def py_truediv_def w)
  next
    case Nil
    then show ?thesis
      by (simp add: SGD_epoch_def SGD_update_def gd_update_def py_truediv_def w evaluate_def)
  qed
qed




lemma nrows_sum_arrays [simp]: "nrows (sum_arrays r c gs) = r"
  by (simp add: sum_arrays_def)

lemma ncols_sum_arrays [simp]: "ncols (sum_arrays r c gs) = c"
  by (simp add: sum_arrays_def)

lemma valid_sum_arrays [simp]: "valid (sum_arrays r c gs)"
  by (simp add: sum_arrays_def)




lemma length_acc [simp]:
  "length (acc_b net exs) = last_layer net" "length (acc_w net exs) = last_layer net"
  by (simp_all add: acc_b_def acc_w_def)





lemma nrows_scalar_mul [simp]: "nrows (scalar_mul s a) = nrows a"
  by (simp add: scalar_mul_def)

lemma ncols_scalar_mul [simp]: "ncols (scalar_mul s a) = ncols a"
  by (simp add: scalar_mul_def)

lemma valid_scalar_mul [simp]: "valid (scalar_mul s a) = valid a"
  by (simp add: scalar_mul_def)



lemma wf_updated:
  assumes wf: "wf_network net"
  shows "wf_network (updated net td lr)"
  using wf unfolding wf_network_def updated_def last_layer_def
  by (simp add: nth_map_upt del: upt_Suc)

lemma sizes_updated [simp]:
  "sizes (updated net td lr) = sizes net" "num_layers (updated net td lr) = num_layers net"
  by (simp_all add: updated_def)












lemma wf_one_output_net: "wf_network one_output_net"
  by (simp add: wf_network_def one_output_net_def valid_def)

lemma np_sub_stretch:
  assumes "nrows a = 1" "ncols a = 1" "ncols b = 1"
  shows "\<exists>d. np_sub a b = Inr d \<and> nrows d = nrows b \<and> ncols d = 1"
  using assms by (simp add: np_sub_def broadcast2_def bdim_def)

lemma np_mul_stretch:
  assumes "nrows b = 1" "ncols b = 1" "ncols a = 1"
  shows "\<exists>d. np_mul a b = Inr d \<and> nrows d = nrows a \<and> ncols d = 1"
  using assms by (simp add: np_mul_def broadcast2_def bdim_def)

lemma backprop_one_output_deep:
  assumes wf: "wf_network net" and xs: "nrows x = hd (sizes net)" "ncols x = 1"
    and y: "nrows y \<noteq> 1" "ncols y = 1" and one: "last (sizes net) = 1"
    and deep: "3 \<le> num_layers net"
  shows "backprop net x y = Inl ValueError"
proof -
  let ?L = "last_layer net"
  let ?A = "map (activation_of net x) [0..<Suc ?L]"
  let ?Z = "map (pre_activation_of net x) [Suc 0..<Suc ?L]"
  note len = wf_lengths [OF wf]
  from len deep have L: "2 \<le> ?L" by simp
  have fwd: "forward_cached (zip (biases net) (weights net)) x [x] [] = Inr (?A, ?Z)"
    by (rule forward_cached_ok [OF wf xs])
  have An: "?A ! i = activation_of net x i" if "i < Suc ?L" for i
    using that by (simp add: nth_map_upt del: upt_Suc)
  have Zn: "?Z ! i = pre_activation_of net x (Suc i)" if "i < ?L" for i
    using that by (simp add: nth_map_upt del: upt_Suc)
  have lenA: "length ?A = Suc ?L" and lenZ: "length ?Z = ?L" by simp_all
  have "py_get ?A (- 1) = Inr (?A ! (length ?A - 1))"
    by (rule py_get_m1) (simp del: upt_Suc)
  then have a_out: "py_get ?A (- 1) = Inr (activation_of net x ?L)"
    using An [of ?L] by (simp only: lenA) simp
  have lastsz: "sizes net ! ?L = 1"
  proof -
    from len have "sizes net \<noteq> []" by auto
    then show ?thesis using one len by (simp add: last_conv_nth)
  qed
  have sha: "nrows (activation_of net x ?L) = 1" "ncols (activation_of net x ?L) = 1"
    using shape_activation_of [OF wf xs, of ?L] lastsz by simp_all
  from np_sub_stretch [OF sha y(2)] obtain cd where
    cd: "cost_derivative (activation_of net x ?L) y = Inr cd" "nrows cd = nrows y" "ncols cd = 1"
    unfolding cost_derivative_def by blast
  have "py_get ?Z (- 1) = Inr (?Z ! (length ?Z - 1))"
    by (rule py_get_m1) (use L in \<open>simp del: upt_Suc\<close>)
  then have z_out: "py_get ?Z (- 1) = Inr (pre_activation_of net x ?L)"
    using Zn [of "?L - 1"] L by (simp only: lenZ) simp
  have sp: "sigmoid_prime (pre_activation_of net x ?L) =
            Inr (sigmoid_prime_spec (pre_activation_of net x ?L))"
    by (rule sigmoid_prime_ok) (simp add: pre_activation_of_def)
  have shp: "nrows (sigmoid_prime_spec (pre_activation_of net x ?L)) = 1"
    "ncols (sigmoid_prime_spec (pre_activation_of net x ?L)) = 1"
    using shape_pre_activation_of [OF wf xs, of ?L] L lastsz by simp_all
  from np_mul_stretch [OF shp cd(3)] obtain delta where
    delta: "np_mul cd (sigmoid_prime_spec (pre_activation_of net x ?L)) = Inr delta"
      "nrows delta = nrows cd" "ncols delta = 1"
    by blast
  have sb: "py_set (map zeros_like (biases net)) (- 1) delta =
            Inr ((map zeros_like (biases net))[length (map zeros_like (biases net)) - 1 := delta])"
    by (rule py_set_m1) (use len in auto)
  have "py_get ?A (- 2) = Inr (?A ! (length ?A - 2))"
    by (rule py_get_m2) (use L in \<open>simp del: upt_Suc\<close>)
  then have a_prev: "py_get ?A (- 2) = Inr (activation_of net x (?L - 1))"
    using An [of "?L - 1"] L by (simp only: lenA) simp
  have shap: "ncols (activation_of net x (?L - 1)) = 1"
    using shape_activation_of [OF wf xs, of "?L - 1"] by simp
  have g: "np_dot delta (transpose_nd (activation_of net x (?L - 1))) =
           Inr (mat_mul delta (transpose_nd (activation_of net x (?L - 1))))"
    by (rule np_dot_ok) (use shap delta(3) in simp)
  have sw: "py_set (map zeros_like (weights net)) (- 1)
              (mat_mul delta (transpose_nd (activation_of net x (?L - 1)))) =
            Inr ((map zeros_like (weights net))[length (map zeros_like (weights net)) - 1 :=
                   mat_mul delta (transpose_nd (activation_of net x (?L - 1)))])"
    by (rule py_set_m1) (use len in auto)
  have rng: "[2..<num_layers net] = 2 # [3..<num_layers net]"
    using deep by (simp add: upt_conv_Cons numeral_3_eq_3 numeral_2_eq_2)
  have step: "backward_step net ?A ?Z 2 (delta, nb, nw) = Inl ValueError" for nb nw
  proof -
    have "py_get ?Z (- int 2) = Inr (?Z ! (length ?Z - 2))"
      by (rule py_get_neg) (use L in simp_all)
    then have z: "py_get ?Z (- int 2) = Inr (pre_activation_of net x (?L - 1))"
      using Zn [of "?L - 2"] L by (simp only: lenZ) (simp add: Suc_diff_Suc numeral_2_eq_2)
    have sp2: "sigmoid_prime (pre_activation_of net x (?L - 1)) =
            Inr (sigmoid_prime_spec (pre_activation_of net x (?L - 1)))"
      by (rule sigmoid_prime_ok) (simp add: pre_activation_of_def)
    have "py_get (weights net) (- int 2 + 1) = Inr (weights net ! (Suc (length (weights net)) - 2))"
      by (rule py_get_neg_plus1) (use L len in simp_all)
    then have w: "py_get (weights net) (- int 2 + 1) = Inr (weights net ! (?L - 1))"
      using len by simp
    have "nrows (weights net ! (?L - 1)) = sizes net ! ?L"
      using wf_weights [OF wf, of "?L - 1"] L by simp
    then have "ncols (transpose_nd (weights net ! (?L - 1))) \<noteq> nrows delta"
      using lastsz delta(2) cd(2) y(1) by simp
    then have d: "np_dot (transpose_nd (weights net ! (?L - 1))) delta = Inl ValueError"
      by (rule np_dot_bad)
    show ?thesis
      unfolding backward_step_def
      by (simp only: prod.case z sp2 w d ebind_Inr ebind_Inl)
  qed
  show ?thesis
    unfolding backprop_def Let_def
    by (simp only: fwd a_out cd(1) z_out sp delta(1) sb a_prev g sw rng backward_loop.simps
        step ebind_Inr ebind_Inl prod.case)
qed

section \<open>Backpropagation\<close>

text \<open>
  Claim C1. For a network as initialisation leaves it and an example of the declared
  sizes, \<^verbatim>\<open>backprop\<close> returns one bias gradient and one weight gradient per layer.
  The bias gradient of the output layer is
  \<open>(activations[L] - y) \<odot> sigmoid_prime(z[L])\<close>; the bias gradient of a hidden layer
  \<open>l\<close> is \<open>(W\<^sub>l\<^sub>+\<^sub>1\<^sup>T \<cdot> delta\<^sub>l\<^sub>+\<^sub>1) \<odot> sigmoid_prime(z[l])\<close>; the weight
  gradient of every layer is the product of its bias gradient with the transposed
  activation of the layer before; and every gradient has the shape of the parameter it
  belongs to. The list index \<open>l - 1\<close> holds layer \<open>l\<close>.
\<close>

theorem backprop_equations:
  assumes wf: "wf_network net" and ex: "example_ok net (x, y)"
  shows "\<exists>nabla_b nabla_w.
           backprop net x y = Inr (nabla_b, nabla_w) \<and>
           length nabla_b = last_layer net \<and> length nabla_w = last_layer net \<and>
           nabla_b ! (last_layer net - 1) =
             hadamard (mat_sub (activation_of net x (last_layer net)) y)
               (sigmoid_prime_spec (pre_activation_of net x (last_layer net))) \<and>
           (\<forall>l. 1 \<le> l \<and> l < last_layer net \<longrightarrow>
              nabla_b ! (l - 1) =
                hadamard (mat_mul (transpose_nd (weights net ! l)) (nabla_b ! l))
                  (sigmoid_prime_spec (pre_activation_of net x l))) \<and>
           (\<forall>l. 1 \<le> l \<and> l \<le> last_layer net \<longrightarrow>
              nabla_w ! (l - 1) =
                mat_mul (nabla_b ! (l - 1)) (transpose_nd (activation_of net x (l - 1))) \<and>
              nrows (nabla_b ! (l - 1)) = nrows (biases net ! (l - 1)) \<and>
              ncols (nabla_b ! (l - 1)) = ncols (biases net ! (l - 1)) \<and>
              nrows (nabla_w ! (l - 1)) = nrows (weights net ! (l - 1)) \<and>
              ncols (nabla_w ! (l - 1)) = ncols (weights net ! (l - 1)))"
proof -
  let ?nb = "nabla_b_from net x y 0" and ?nw = "nabla_w_from net x y 0"
  let ?L = "last_layer net"
  note e = example_okD [OF ex]
  from wf_lengths [OF wf] have L: "0 < ?L" by simp
  have bp: "backprop net x y = Inr (?nb, ?nw)"
    using backprop_ok [OF wf] e by simp
  have top: "?nb ! (?L - 1) =
             hadamard (mat_sub (activation_of net x ?L) y)
               (sigmoid_prime_spec (pre_activation_of net x ?L))"
    using L by (simp add: nth_nabla_from_0 delta_of_top)
  have hid: "?nb ! (l - 1) =
                hadamard (mat_mul (transpose_nd (weights net ! l)) (?nb ! l))
                  (sigmoid_prime_spec (pre_activation_of net x l))"
    if "1 \<le> l \<and> l < ?L" for l
  proof -
    from that have "l - 1 < ?L" "l < ?L" "Suc (l - 1) = l" by arith+
    then show ?thesis
      using nth_nabla_from_0(1) [of "l - 1" net x y] nth_nabla_from_0(1) [of l net x y]
        delta_of_rec [of l net x y] by simp
  qed
  have gw: "?nw ! (l - 1) = mat_mul (?nb ! (l - 1)) (transpose_nd (activation_of net x (l - 1))) \<and>
              nrows (?nb ! (l - 1)) = nrows (biases net ! (l - 1)) \<and>
              ncols (?nb ! (l - 1)) = ncols (biases net ! (l - 1)) \<and>
              nrows (?nw ! (l - 1)) = nrows (weights net ! (l - 1)) \<and>
              ncols (?nw ! (l - 1)) = ncols (weights net ! (l - 1))"
    if "1 \<le> l \<and> l \<le> ?L" for l
  proof -
    from that have j: "l - 1 < ?L" by arith
    show ?thesis
      using backprop_shapes [OF wf ex j] j by (simp add: nth_nabla_from_0)
  qed
  show ?thesis
  proof (rule exI [of _ ?nb], rule exI [of _ ?nw], intro conjI allI impI)
    show "backprop net x y = Inr (?nb, ?nw)" by (rule bp)
    show "length ?nb = ?L" "length ?nw = ?L" by simp_all
    show "?nb ! (?L - 1) =
             hadamard (mat_sub (activation_of net x ?L) y)
               (sigmoid_prime_spec (pre_activation_of net x ?L))" by (rule top)
  qed (use hid gw in blast)+
qed

theorem backprop_equations_witness:
  "wf_network demo_net \<and> example_ok demo_net (demo_x, demo_y) \<and>
   (\<exists>nabla_b nabla_w.
      backprop demo_net demo_x demo_y = Inr (nabla_b, nabla_w) \<and>
      length nabla_b = 2 \<and> length nabla_w = 2 \<and>
      nabla_b ! 1 =
        hadamard (mat_sub (activation_of demo_net demo_x 2) demo_y)
          (sigmoid_prime_spec (pre_activation_of demo_net demo_x 2)) \<and>
      nabla_b ! 0 =
        hadamard (mat_mul (transpose_nd (weights demo_net ! 1)) (nabla_b ! 1))
          (sigmoid_prime_spec (pre_activation_of demo_net demo_x 1)) \<and>
      nabla_w ! 0 = mat_mul (nabla_b ! 0) (transpose_nd demo_x) \<and>
      nabla_w ! 1 = mat_mul (nabla_b ! 1) (transpose_nd (activation_of demo_net demo_x 1)) \<and>
      nrows (nabla_w ! 0) = 1 \<and> ncols (nabla_w ! 0) = 2)"
proof -
  have L: "last_layer demo_net = 2" by (simp add: last_layer_def demo_net_def)
  from backprop_equations [OF wf_demo_net example_ok_demo]
  obtain nb nw where h:
    "backprop demo_net demo_x demo_y = Inr (nb, nw)"
    "length nb = 2" "length nw = 2"
    "nb ! (2 - 1) = hadamard (mat_sub (activation_of demo_net demo_x 2) demo_y)
               (sigmoid_prime_spec (pre_activation_of demo_net demo_x 2))"
    "\<forall>l. 1 \<le> l \<and> l < 2 \<longrightarrow>
              nb ! (l - 1) =
                hadamard (mat_mul (transpose_nd (weights demo_net ! l)) (nb ! l))
                  (sigmoid_prime_spec (pre_activation_of demo_net demo_x l))"
    "\<forall>l. 1 \<le> l \<and> l \<le> 2 \<longrightarrow>
              nw ! (l - 1) =
                mat_mul (nb ! (l - 1)) (transpose_nd (activation_of demo_net demo_x (l - 1))) \<and>
              nrows (nb ! (l - 1)) = nrows (biases demo_net ! (l - 1)) \<and>
              ncols (nb ! (l - 1)) = ncols (biases demo_net ! (l - 1)) \<and>
              nrows (nw ! (l - 1)) = nrows (weights demo_net ! (l - 1)) \<and>
              ncols (nw ! (l - 1)) = ncols (weights demo_net ! (l - 1))"
    unfolding L by blast
  from h(5) have h1: "nb ! 0 = hadamard (mat_mul (transpose_nd (weights demo_net ! 1)) (nb ! 1))
                  (sigmoid_prime_spec (pre_activation_of demo_net demo_x 1))"
    by (drule_tac x = 1 in spec) simp
  from h(6) have h2: "nw ! 0 = mat_mul (nb ! 0) (transpose_nd demo_x)"
      "nrows (nw ! 0) = 1" "ncols (nw ! 0) = 2"
    by (drule_tac x = 1 in spec, simp add: demo_net_def)+
  from h(6) have h3: "nw ! 1 = mat_mul (nb ! 1) (transpose_nd (activation_of demo_net demo_x 1))"
    by (drule_tac x = 2 in spec) simp
  from h(4) have h4: "nb ! 1 = hadamard (mat_sub (activation_of demo_net demo_x 2) demo_y)
               (sigmoid_prime_spec (pre_activation_of demo_net demo_x 2))" by simp
  show ?thesis
    using wf_demo_net example_ok_demo h(1-3) h1 h2 h3 h4 by blast
qed

section \<open>One epoch of gradient descent\<close>



section \<open>An empty training set\<close>

text \<open>
  Claim C6, as the program has it. \<^verbatim>\<open>SGD\<close> has no check of its arguments: with
  an empty training set the loop is entered, the accumulation passes over no example, and
  the update of the weights divides by the length 0.
\<close>

theorem SGD_empty_counterexample:
  "gd_update (weights demo_net) (map zeros_like (weights demo_net)) 1 (length ([] :: (ndarray \<times> ndarray) list)) =
     Inl ZeroDivisionError \<and>
   SGD demo_net [] 1 = Some (Inl ZeroDivisionError)"
proof -
  have "SGD_loop demo_net [] 1 0 [] = Some (Inl ZeroDivisionError)"
    by (subst SGD_loop.simps)
      (simp add: SGD_epoch_def SGD_update_def gd_update_def py_truediv_def demo_net_def)
  then show ?thesis
    by (simp add: SGD_def gd_update_def py_truediv_def demo_net_def)
qed

text \<open>
  Claim C6, amended. With an empty training set, \<^verbatim>\<open>SGD\<close> of any network enters
  the loop, and its first epoch ends in a ZeroDivisionError: the accumulation returns the
  zero accumulators, and the update of a non-empty list of parameters divides by the
  length 0. No network is returned.
\<close>

theorem SGD_empty_training_set:
  "accumulate net [] zs_b zs_w = Inr (zs_b, zs_w) \<and>
   gd_update (w # ws) (nw # nws) learning_rate (length ([] :: (ndarray \<times> ndarray) list)) =
     Inl ZeroDivisionError \<and>
   SGD_epoch net [] learning_rate = Inl ZeroDivisionError \<and>
   SGD net [] learning_rate = Some (Inl ZeroDivisionError)"
proof -
  have "SGD_loop net [] learning_rate 0 [] = Some (Inl ZeroDivisionError)"
    by (subst SGD_loop.simps) (simp add: SGD_epoch_empty)
  then have "SGD net [] learning_rate = Some (Inl ZeroDivisionError)"
    by (simp add: SGD_def)
  then show ?thesis
    by (simp add: SGD_epoch_empty gd_update_def py_truediv_def)
qed

section \<open>Examples of the wrong dimension\<close>

text \<open>
  Claim C7, as the program has it. The program checks no shape itself: a mismatch is
  an error only where numpy raises one. A target column of one entry against a network with
  two outputs is broadcast, and \<^verbatim>\<open>backprop\<close> returns gradients; a target column
  of three entries against a network of two layers with one output is broadcast the other
  way, and \<^verbatim>\<open>backprop\<close> returns gradients of three rows.
\<close>

theorem backprop_mismatch_counterexample:
  "wf_network two_class_net \<and>
   nrows (NDArray 1 1 [1]) \<noteq> last (sizes two_class_net) \<and>
   backprop two_class_net (NDArray 1 1 [1]) (NDArray 1 1 [1]) =
     Inr ([NDArray 2 1 [- 1 / 8, - 1 / 8]], [NDArray 2 1 [- 1 / 8, - 1 / 8]]) \<and>
   wf_network one_output_net \<and>
   nrows (NDArray 3 1 [1, 0, 0]) \<noteq> last (sizes one_output_net) \<and>
   backprop one_output_net (NDArray 1 1 [1]) (NDArray 3 1 [1, 0, 0]) =
     Inr ([NDArray 3 1 [- 1 / 8, 1 / 8, 1 / 8]], [NDArray 3 1 [- 1 / 8, 1 / 8, 1 / 8]])"
proof -
  have a: "backprop two_class_net (NDArray 1 1 [1]) (NDArray 1 1 [1]) =
     Inr ([NDArray 2 1 [- 1 / 8, - 1 / 8]], [NDArray 2 1 [- 1 / 8, - 1 / 8]])"
    by (simp add: backprop_def two_class_net_def forward_cached.simps np_dot_def np_add_def
      np_sub_def np_mul_def broadcast2_def bdim_def bidx_def mk_array_def entry_def
      sigmoid_def sigmoid_prime_def map_nd_def scalar_rsub_def sigmoid_scalar_0
      py_get_def py_set_def py_index_def cost_derivative_def transpose_nd_def
      zeros_like_def np_zeros_def upt_2 Let_def)
  have upt_3: "[0..<3] = [0, 1, 2]" by (simp add: upt_conv_Cons)
  have b: "backprop one_output_net (NDArray 1 1 [1]) (NDArray 3 1 [1, 0, 0]) =
     Inr ([NDArray 3 1 [- 1 / 8, 1 / 8, 1 / 8]], [NDArray 3 1 [- 1 / 8, 1 / 8, 1 / 8]])"
    by (simp add: backprop_def one_output_net_def forward_cached.simps np_dot_def np_add_def
      np_sub_def np_mul_def broadcast2_def bdim_def bidx_def mk_array_def entry_def
      sigmoid_def sigmoid_prime_def map_nd_def scalar_rsub_def sigmoid_scalar_0
      py_get_def py_set_def py_index_def cost_derivative_def transpose_nd_def
      zeros_like_def np_zeros_def upt_3 Let_def)
  show ?thesis
    using wf_two_class_net wf_one_output_net a b
    by (simp add: two_class_net_def one_output_net_def)
qed

text \<open>
  Claim C7, amended. For a network as initialisation leaves it, \<^verbatim>\<open>backprop\<close> raises
  ValueError when the number of rows of the input differs from the first layer size; and,
  for an input column of the first layer size, when the number of rows of the target
  differs from the last layer size and is not 1, provided that the last layer size is
  not 1 or that the target is a column and the network has at least three layers.
\<close>

theorem backprop_rejects_mismatch:
  assumes wf: "wf_network net"
    and bad: "nrows x \<noteq> hd (sizes net) \<or>
              (nrows x = hd (sizes net) \<and> ncols x = 1 \<and> nrows y \<noteq> last (sizes net) \<and>
               nrows y \<noteq> 1 \<and>
               (last (sizes net) \<noteq> 1 \<or> (ncols y = 1 \<and> 3 \<le> num_layers net)))"
  shows "backprop net x y = Inl ValueError"
proof (cases "nrows x = hd (sizes net)")
  case False
  then show ?thesis
    unfolding backprop_def Let_def by (simp add: forward_cached_bad_input [OF wf])
next
  case True
  with bad have xs: "nrows x = hd (sizes net)" "ncols x = 1"
    and y: "nrows y \<noteq> last (sizes net)" "nrows y \<noteq> 1"
    and c: "last (sizes net) \<noteq> 1 \<or> (ncols y = 1 \<and> 3 \<le> num_layers net)" by auto
  show ?thesis
  proof (cases "last (sizes net) = 1")
    case True
    with c have "ncols y = 1" "3 \<le> num_layers net" by auto
    from backprop_one_output_deep [OF wf xs y(2) this(1) True this(2)] show ?thesis .
  next
    case False
    let ?L = "last_layer net"
    let ?A = "map (activation_of net x) [0..<Suc ?L]"
    let ?Z = "map (pre_activation_of net x) [Suc 0..<Suc ?L]"
    note len = wf_lengths [OF wf]
    have fwd: "forward_cached (zip (biases net) (weights net)) x [x] [] = Inr (?A, ?Z)"
      by (rule forward_cached_ok [OF wf xs])
    have An: "?A ! ?L = activation_of net x ?L"
      by (simp add: nth_map_upt del: upt_Suc)
    have "py_get ?A (- 1) = Inr (?A ! (length ?A - 1))"
      by (rule py_get_m1) (simp del: upt_Suc)
    then have a_out: "py_get ?A (- 1) = Inr (activation_of net x ?L)"
      using An by simp
    have lastsz: "last (sizes net) = sizes net ! ?L"
    proof -
      from len have "sizes net \<noteq> []" by auto
      then show ?thesis using len by (simp add: last_conv_nth)
    qed
    have sha: "nrows (activation_of net x ?L) = last (sizes net)"
      using shape_activation_of [OF wf xs, of ?L] lastsz by simp
    have cd: "cost_derivative (activation_of net x ?L) y = Inl ValueError"
      unfolding cost_derivative_def by (rule np_sub_bad) (use sha y False in simp_all)
    show ?thesis
      unfolding backprop_def Let_def
      by (simp only: fwd a_out cd ebind_Inr ebind_Inl prod.case)
  qed
qed

theorem backprop_rejects_mismatch_witness:
  "wf_network two_class_net \<and>
   nrows (NDArray 2 1 [0, 0]) \<noteq> hd (sizes two_class_net) \<and>
   backprop two_class_net (NDArray 2 1 [0, 0]) (NDArray 2 1 [1, 0]) = Inl ValueError \<and>
   nrows (NDArray 1 1 [1]) = hd (sizes two_class_net) \<and> ncols (NDArray 1 1 [1]) = 1 \<and>
   nrows (NDArray 3 1 [1, 0, 0]) \<noteq> last (sizes two_class_net) \<and>
   nrows (NDArray 3 1 [1, 0, 0]) \<noteq> 1 \<and> last (sizes two_class_net) \<noteq> 1 \<and>
   backprop two_class_net (NDArray 1 1 [1]) (NDArray 3 1 [1, 0, 0]) = Inl ValueError \<and>
   wf_network demo_net \<and>
   nrows demo_x = hd (sizes demo_net) \<and> ncols demo_x = 1 \<and>
   nrows (NDArray 2 1 [1, 0]) \<noteq> last (sizes demo_net) \<and> nrows (NDArray 2 1 [1, 0]) \<noteq> 1 \<and>
   ncols (NDArray 2 1 [1, 0]) = 1 \<and> 3 \<le> num_layers demo_net \<and>
   backprop demo_net demo_x (NDArray 2 1 [1, 0]) = Inl ValueError"
proof -
  have s: "hd (sizes two_class_net) = 1" "last (sizes two_class_net) = 2"
    by (simp_all add: two_class_net_def)
  have d: "hd (sizes demo_net) = 2" "last (sizes demo_net) = 1" "num_layers demo_net = 3"
    "nrows demo_x = 2" "ncols demo_x = 1"
    by (simp_all add: demo_net_def demo_x_def)
  have a: "backprop two_class_net (NDArray 2 1 [0, 0]) (NDArray 2 1 [1, 0]) = Inl ValueError"
    by (rule backprop_rejects_mismatch [OF wf_two_class_net]) (simp add: s)
  have b: "backprop two_class_net (NDArray 1 1 [1]) (NDArray 3 1 [1, 0, 0]) = Inl ValueError"
    by (rule backprop_rejects_mismatch [OF wf_two_class_net]) (simp add: s)
  have c: "backprop demo_net demo_x (NDArray 2 1 [1, 0]) = Inl ValueError"
    by (rule backprop_rejects_mismatch [OF wf_demo_net]) (simp add: d)
  show ?thesis using wf_two_class_net wf_demo_net a b c by (simp add: s d)
qed

end
